theory Spec2Isabelle
  imports Complex_Main "HOL-Library.AList" "HOL-Library.Multiset"
begin

section \<open>Conventions of the embedding\<close>

text \<open>
  The development embeds the numerical core of \<^verbatim>\<open>invisible_cities/core/peak_functions.py\<close>
  and \<^verbatim>\<open>invisible_cities/cities/beersheba.py\<close>.

  \<^item> A \<^verbatim>\<open>np.double\<close> is modelled as a \<^typ>\<open>real\<close>: sums, products and quotients are
    the exact ones, the rounding of IEEE arithmetic is not modelled.
  \<^item> A numpy array is a list; an index (\<^verbatim>\<open>np.int32\<close>), a length bound and a stride are
    \<^typ>\<open>int\<close>.
  \<^item> A Python \<^verbatim>\<open>dict\<close> is an association list in insertion order, written with
    \<^const>\<open>AList.update\<close> (a new key goes to the end, a known key keeps its place), which is
    the order in which Python iterates over it.
  \<^item> An exception is the left summand of the result.
\<close>

datatype exn = IndexError | AssertionError | ZeroDivisionError | ValueError

section \<open>peak\_functions.py\<close>

subsection \<open>\<^verbatim>\<open>time_from_index\<close>\<close>

text \<open>\<^verbatim>\<open>tzs[i] = step * float(indx[i])\<close> with \<^verbatim>\<open>step = 25\<close>.\<close>

definition time_from_index :: "int list \<Rightarrow> real list" where
  "time_from_index indx = map (\<lambda>i. 25 * real_of_int i) indx"

subsection \<open>\<^verbatim>\<open>rebin_waveform\<close>\<close>

text \<open>
  The inner loops \<^verbatim>\<open>for k in range(j, j + stride): esum += e[k]\<close> add the entries
  \<open>j, \<dots>, j + stride - 1\<close> to an accumulator that starts at 0.
\<close>

definition range_sum :: "real list \<Rightarrow> nat \<Rightarrow> nat \<Rightarrow> real" where
  "range_sum e lo hi = foldl (\<lambda>acc k. acc + e ! k) 0 [lo..<hi]"

text \<open>
  The loop \<^verbatim>\<open>for i in range(n)\<close>: the recursion counts the chunks that are left, \<open>j\<close> is
  the offset of the next one. The result holds the entries \<open>T[i], \<dots>\<close> and \<open>E[i], \<dots>\<close>.
\<close>

fun rebin_chunks :: "real list \<Rightarrow> real list \<Rightarrow> nat \<Rightarrow> nat \<Rightarrow> nat \<Rightarrow> real list \<times> real list" where
  "rebin_chunks t e stride 0 j = ([], [])"
| "rebin_chunks t e stride (Suc n) j =
     (let esum = range_sum e j (j + stride);
          tmean = range_sum t j (j + stride) / real stride;
          (T, E) = rebin_chunks t e stride n (j + stride)
      in (tmean # T, esum # E))"

text \<open>
  \<^verbatim>\<open>len(t) // stride\<close> raises for a zero stride. For a negative stride Python's floor
  division gives \<open>n \<le> 0\<close> and \<open>r \<le> 0\<close>, so \<^verbatim>\<open>np.zeros(n)\<close> raises unless the input is
  empty, in which case both loops are skipped.
\<close>

definition rebin_waveform :: "real list \<Rightarrow> real list \<Rightarrow> int \<Rightarrow> exn + (real list \<times> real list)" where
  "rebin_waveform t e stride =
     (if length t \<noteq> length e then Inl AssertionError
      else if stride = 0 then Inl ZeroDivisionError
      else if stride < 0 then (if t = [] then Inr ([], []) else Inl ValueError)
      else
        let s = nat stride;
            n = length t div s;
            r = length t mod s;
            (T, E) = rebin_chunks t e s n 0;
            j = n * s
        in if r > 0
           then Inr (T @ [range_sum t j (length t) / real (length t - j)],
                     E @ [range_sum e j (length t)])
           else Inr (T, E))"

subsection \<open>\<^verbatim>\<open>find_S12\<close>\<close>

type_synonym sample = "real \<times> real"
type_synonym S12_dict = "(nat \<times> sample list) list"
type_synonym S12L_dict = "(nat \<times> (real list \<times> real list)) list"

text \<open>
  The first loop, \<^verbatim>\<open>for i in range(1, len(wfzs))\<close>. The state is the dictionary \<open>S12\<close>
  and the current key \<open>j\<close>; \<^verbatim>\<open>break\<close> returns the state, \<^verbatim>\<open>continue\<close> goes on with
  \<open>i + 1\<close>.
\<close>

function S12_loop ::
  "real list \<Rightarrow> real list \<Rightarrow> int list \<Rightarrow> real \<Rightarrow> real \<Rightarrow> int \<Rightarrow> nat \<Rightarrow> S12_dict \<times> nat \<Rightarrow> S12_dict \<times> nat"
where
  "S12_loop T P index tmin tmax stride i (S12, j) =
     (if i < length P then
        if T ! i > tmax then (S12, j)
        else if T ! i < tmin then S12_loop T P index tmin tmax stride (Suc i) (S12, j)
        else
          let (S12', j') =
                (if index ! i - stride > index ! (i - 1)
                 then (AList.update (Suc j) [] S12, Suc j) else (S12, j))
          in S12_loop T P index tmin tmax stride (Suc i)
               (AList.map_entry j' (\<lambda>s. s @ [(T ! i, P ! i)]) S12', j')
      else (S12, j))"
  by pat_completeness auto
termination
  by (relation "measure (\<lambda>(T, P, index, tmin, tmax, stride, i, st). length P - i)") auto

declare S12_loop.simps [simp del]

text \<open>
  The second loop, \<^verbatim>\<open>for i in S12\<close>, over the entries in insertion order; the keys of
  \<open>S12\<close> are distinct, so \<^verbatim>\<open>S12[i]\<close> is the value stored with the key. The state is
  \<open>S12L\<close> and its next key \<open>j\<close>.
\<close>

fun rearrange ::
  "int \<Rightarrow> int \<Rightarrow> bool \<Rightarrow> int \<Rightarrow> S12_dict \<Rightarrow> S12L_dict \<times> nat \<Rightarrow> exn + S12L_dict"
where
  "rearrange lmin lmax rebin rebin_stride [] (S12L, j) = Inr S12L"
| "rearrange lmin lmax rebin rebin_stride ((i, pk) # rest) (S12L, j) =
     (let ls = int (length pk) in
      if \<not> (lmin \<le> ls \<and> ls < lmax)
      then rearrange lmin lmax rebin rebin_stride rest (S12L, j)
      else
        let t = map fst pk; e = map snd pk in
        if rebin
        then (case rebin_waveform t e rebin_stride of
                Inl err \<Rightarrow> Inl err
              | Inr TE \<Rightarrow>
                  rearrange lmin lmax rebin rebin_stride rest (AList.update j TE S12L, Suc j))
        else rearrange lmin lmax rebin rebin_stride rest (AList.update j (t, e) S12L, Suc j))"

text \<open>
  The dictionary \<open>S12\<close> at the end of the first loop, for an input that has a first
  sample: \<^verbatim>\<open>S12[0] = s12; S12[0].append([T[0], P[0]])\<close>, then the loop from \<open>i = 1\<close>.
\<close>

definition S12_groups :: "real list \<Rightarrow> int list \<Rightarrow> real \<Rightarrow> real \<Rightarrow> int \<Rightarrow> S12_dict" where
  "S12_groups wfzs index tmin tmax stride =
     (let P = wfzs; T = time_from_index index;
          S12 = AList.map_entry 0 (\<lambda>s. s @ [(T ! 0, P ! 0)]) (AList.update 0 [] [])
      in fst (S12_loop T P index tmin tmax stride 1 (S12, 0)))"

text \<open>
  \<^verbatim>\<open>find_S12\<close>: the assertion on the lengths, the read of \<^verbatim>\<open>T[0]\<close>, which raises on an
  empty array, the grouping and the selection by length.
\<close>

definition find_S12 ::
  "real list \<Rightarrow> int list \<Rightarrow> real \<Rightarrow> real \<Rightarrow> int \<Rightarrow> int \<Rightarrow> int \<Rightarrow> bool \<Rightarrow> int \<Rightarrow> exn + S12L_dict"
where
  "find_S12 wfzs index tmin tmax lmin lmax stride rebin rebin_stride =
     (if length wfzs \<noteq> length index then Inl AssertionError
      else if time_from_index index = [] then Inl IndexError
      else rearrange lmin lmax rebin rebin_stride
             (S12_groups wfzs index tmin tmax stride) ([], 0))"

subsection \<open>Vocabulary for the statements about \<^verbatim>\<open>find_S12\<close>\<close>

text \<open>
  The test of the second loop on the sample count \<open>ls\<close> of a grouped peak, and what the
  loop stores for a peak that passes it: its time and energy arrays, rebinned or not.
\<close>

definition peak_kept :: "int \<Rightarrow> int \<Rightarrow> sample list \<Rightarrow> bool" where
  "peak_kept lmin lmax pk \<longleftrightarrow> lmin \<le> int (length pk) \<and> int (length pk) < lmax"

definition peak_arrays :: "sample list \<Rightarrow> real list \<times> real list" where
  "peak_arrays pk = (map fst pk, map snd pk)"

definition peak_stored :: "bool \<Rightarrow> int \<Rightarrow> sample list \<Rightarrow> real list \<times> real list" where
  "peak_stored rebin rebin_stride pk =
     (if rebin
      then (case rebin_waveform (map fst pk) (map snd pk) rebin_stride of
              Inr TE \<Rightarrow> TE | Inl err \<Rightarrow> ([], []))
      else peak_arrays pk)"

section \<open>beersheba.py\<close>

subsection \<open>Data\<close>

text \<open>
  The enumerations of the module, and \<^verbatim>\<open>HitEnergy\<close> with its two values \<^verbatim>\<open>E\<close> and \<^verbatim>\<open>Ec\<close>.
\<close>

datatype CutType = abs_cut | rel_cut

datatype DeconvolutionMode = joint | separate


text \<open>
  A data frame is the record of its columns. \<open>cdst\<close> is the table of sensor responses
  (an event, a peak or one slice of it), \<open>deconv_df\<close> the table of deconvolved hits that
  \<^verbatim>\<open>create_deconvolution_df\<close> builds, with the columns
  \<^verbatim>\<open>['event', 'npeak', 'X', 'Y', 'Z', 'E']\<close>.
\<close>

record cdst =
  c_event :: "int list"
  c_npeak :: "int list"
  c_Xpeak :: "real list"
  c_Ypeak :: "real list"
  c_X :: "real list"
  c_Y :: "real list"
  c_Z :: "real list"
  c_Q :: "real list"
  c_E :: "real list"
  c_Ec :: "real list"
  c_NormQ :: "real list"

record deconv_df =
  df_event :: "int list"
  df_npeak :: "int list"
  df_X :: "real list"
  df_Y :: "real list"
  df_Z :: "real list"
  df_E :: "real list"

subsection \<open>numpy and pandas operations\<close>

text \<open>
  \<^verbatim>\<open>Series.unique()\<close> lists the values in order of first appearance, and \<^verbatim>\<open>[0]\<close> raises
  on an empty array.
\<close>

definition unique :: "'a list \<Rightarrow> 'a list" where
  "unique xs = rev (remdups (rev xs))"

definition first :: "'a list \<Rightarrow> exn + 'a" where
  "first xs = (case xs of [] \<Rightarrow> Inl IndexError | x # _ \<Rightarrow> Inr x)"

definition item :: "'a list \<Rightarrow> nat \<Rightarrow> exn + 'a" where
  "item xs i = (if i < length xs then Inr (xs ! i) else Inl IndexError)"

text \<open>
  Indexing an array with a boolean array of the same length keeps the entries at the true
  positions; another length raises.
\<close>

definition masked :: "'a list \<Rightarrow> bool list \<Rightarrow> exn + 'a list" where
  "masked xs sel =
     (if length xs \<noteq> length sel then Inl IndexError
      else Inr (map fst (filter snd (zip xs sel))))"

text \<open>
  Division of floats in numpy does not raise: a zero divisor gives an infinity or a NaN,
  and a comparison with a NaN is false. Only the quotient that the relative cut compares
  needs these values.
\<close>

datatype np_float = Finite real | PosInf | NegInf | NaN

definition np_divide :: "real \<Rightarrow> real \<Rightarrow> np_float" where
  "np_divide a b =
     (if b \<noteq> 0 then Finite (a / b)
      else if a > 0 then PosInf else if a < 0 then NegInf else NaN)"

definition np_greater :: "np_float \<Rightarrow> real \<Rightarrow> bool" where
  "np_greater q c = (case q of Finite r \<Rightarrow> r > c | PosInf \<Rightarrow> True | NegInf \<Rightarrow> False | NaN \<Rightarrow> False)"

subsection \<open>\<^verbatim>\<open>create_deconvolution_df\<close>\<close>

text \<open>
  The selection \<^verbatim>\<open>sel_deconv\<close>; \<^verbatim>\<open>deconv_e.max()\<close> raises on an empty array.
\<close>

definition sel_deconv :: "real list \<Rightarrow> CutType \<Rightarrow> real \<Rightarrow> exn + bool list" where
  "sel_deconv deconv_e cut_type e_cut =
     (case cut_type of
        abs_cut \<Rightarrow> Inr (map (\<lambda>v. v > e_cut) deconv_e)
      | rel_cut \<Rightarrow>
          if deconv_e = [] then Inl ValueError
          else Inr (map (\<lambda>v. np_greater (np_divide v (Max (set deconv_e))) e_cut) deconv_e))"

text \<open>
  The columns are assigned in the order of the source; a scalar is broadcast to the
  length that the column \<^verbatim>\<open>E\<close> gave the frame.
\<close>

definition create_deconvolution_df ::
  "cdst \<Rightarrow> real list \<Rightarrow> real list list \<Rightarrow> CutType \<Rightarrow> real \<Rightarrow> nat \<Rightarrow> exn + deconv_df"
where
  "create_deconvolution_df hits deconv_e pos cut_type e_cut n_dim =
     (case sel_deconv deconv_e cut_type e_cut of Inl err \<Rightarrow> Inl err | Inr sel \<Rightarrow>
      case masked deconv_e sel of Inl err \<Rightarrow> Inl err | Inr col_E \<Rightarrow>
      case first (unique (c_event hits)) of Inl err \<Rightarrow> Inl err | Inr ev \<Rightarrow>
      case first (unique (c_npeak hits)) of Inl err \<Rightarrow> Inl err | Inr pk \<Rightarrow>
      case (if n_dim = 2
            then (case first (unique (c_Z hits)) of
                    Inl err \<Rightarrow> Inl err | Inr z \<Rightarrow> Inr (replicate (length col_E) z))
            else (case item pos 2 of Inl err \<Rightarrow> Inl err | Inr pz \<Rightarrow> masked pz sel))
        of Inl err \<Rightarrow> Inl err | Inr col_Z \<Rightarrow>
      case item pos 0 of Inl err \<Rightarrow> Inl err | Inr px \<Rightarrow>
      case masked px sel of Inl err \<Rightarrow> Inl err | Inr col_X \<Rightarrow>
      case item pos 1 of Inl err \<Rightarrow> Inl err | Inr py \<Rightarrow>
      case masked py sel of Inl err \<Rightarrow> Inl err | Inr col_Y \<Rightarrow>
        Inr \<lparr>df_event = replicate (length col_E) ev,
             df_npeak = replicate (length col_E) pk,
             df_X = col_X, df_Y = col_Y, df_Z = col_Z, df_E = col_E\<rparr>)"

subsection \<open>\<^verbatim>\<open>distribute_energy\<close>\<close>



subsection \<open>\<^verbatim>\<open>deconvolve_hits\<close>\<close>

text \<open>
  A row of the PSF table, with the columns that the module reads: the grid position
  \<open>x, y, z\<close> and the relative coordinates \<open>xr, yr, zr\<close>; whatever else a row holds is
  the extension of the record.
\<close>

record psf_row =
  p_x :: real
  p_y :: real
  p_z :: real
  p_xr :: real
  p_yr :: real
  p_zr :: real

text \<open>
  The second argument of \<^verbatim>\<open>find_nearest\<close> is the scalar \<open>zz\<close> or the array of the unique
  values of a column.
\<close>

datatype np_value = Scalar real | Array "real list"

text \<open>
  The PSF lookup of \<^verbatim>\<open>deconvolve_hits\<close>,
  \<^verbatim>\<open>psfs.loc[(psfs.z == find_nearest(psfs.z, zz)) & (psfs.x == find_nearest(psfs.x, xx)) & (psfs.y == find_nearest(psfs.y, yy)), :]\<close>.
  \<^verbatim>\<open>find_nearest\<close> is imported from \<^verbatim>\<open>reco.deconv_functions\<close> and is a parameter here.
\<close>

definition psf_lookup ::
  "(real list \<Rightarrow> np_value \<Rightarrow> real) \<Rightarrow> 'a psf_row_scheme list \<Rightarrow> real \<Rightarrow> real list \<Rightarrow> real list
     \<Rightarrow> 'a psf_row_scheme list"
where
  "psf_lookup find_nearest psfs zz xx yy =
     filter (\<lambda>r. p_z r = find_nearest (map p_z psfs) (Scalar zz)
              \<and> p_x r = find_nearest (map p_x psfs) (Array xx)
              \<and> p_y r = find_nearest (map p_y psfs) (Array yy)) psfs"

text \<open>
  \<^verbatim>\<open>deconvolve_hits(df, z)\<close> in the closure of \<^verbatim>\<open>deconvolve_signal\<close>. Parameters stand for
  the code that the module imports: \<open>find_nearest\<close>; \<open>deconvolution\<close>, the function
  that \<^verbatim>\<open>deconvolve(n_iterations, iteration_tol, sample_width, bin_size, inter_method)\<close>
  returns, from the coordinate columns, the normalised charges and the PSF to the image
  and the positions of its bins; and \<open>gaussian_pass\<close>, the second deconvolution of the
  separate mode (the normal density over the relative coordinates of the PSF,
  \<^verbatim>\<open>richardson_lucy\<close> and \<^verbatim>\<open>nan_to_num\<close>), from \<open>z\<close>, the PSF and the image to the image.
\<close>

definition deconvolve_hits ::
  "(real list \<Rightarrow> np_value \<Rightarrow> real)
     \<Rightarrow> (real list list \<Rightarrow> real list \<Rightarrow> 'a psf_row_scheme list \<Rightarrow> real list list \<times> real list list)
     \<Rightarrow> (real \<Rightarrow> 'a psf_row_scheme list \<Rightarrow> real list list \<Rightarrow> real list list)
     \<Rightarrow> 'a psf_row_scheme list \<Rightarrow> DeconvolutionMode \<Rightarrow> nat \<Rightarrow> CutType \<Rightarrow> real
     \<Rightarrow> cdst \<Rightarrow> real \<Rightarrow> exn + deconv_df"
where
  "deconvolve_hits find_nearest deconvolution gaussian_pass psfs deconv_mode n_dim cut_type e_cut df z =
     (let xx = unique (c_Xpeak df); yy = unique (c_Ypeak df);
          zz = (if deconv_mode = joint then z else 0);
          psf = psf_lookup find_nearest psfs zz xx yy;
          (deconv_image, pos) = deconvolution (take n_dim [c_X df, c_Y df, c_Z df]) (c_NormQ df) psf;
          deconv_image' = (case deconv_mode of
                             joint \<Rightarrow> deconv_image
                           | separate \<Rightarrow> gaussian_pass z psf deconv_image)
      in create_deconvolution_df df (concat deconv_image') pos cut_type e_cut n_dim)"

subsection \<open>\<^verbatim>\<open>create_extract_track_blob_info\<close>\<close>

text \<open>
  A track is a graph of voxels; the module reads its nodes, in the order of
  \<^verbatim>\<open>t.nodes()\<close>, and of a voxel its energy \<^verbatim>\<open>Ehits\<close> and its hits.
\<close>

record 'h voxel =
  Ehits :: real
  vox_hits :: "'h list"

type_synonym 'h track = "'h voxel list"

text \<open>The sort key and the column \<^verbatim>\<open>energy\<close>: \<^verbatim>\<open>sum([vox.Ehits for vox in t.nodes()])\<close>.\<close>

definition track_energy :: "'h track \<Rightarrow> real" where
  "track_energy t = sum_list (map Ehits t)"

text \<open>
  Python's \<^verbatim>\<open>sorted(xs, key = k, reverse = True)\<close>: the list is reversed, sorted by a
  stable ascending sort and reversed again, so that elements with equal keys keep the
  order they had in \<open>xs\<close>.
\<close>

definition sorted_reverse :: "('a \<Rightarrow> real) \<Rightarrow> 'a list \<Rightarrow> 'a list" where
  "sorted_reverse k xs = rev (sort_key k (rev xs))"

text \<open>
  The rows of the summary table, with the columns that are computed from the list of
  tracks alone. The other columns (length, extrema, blobs, bounding box) are computed
  by functions of \<^verbatim>\<open>paolina_functions\<close> from the track of the row and do not bear on the
  order of the rows.
\<close>

record track_summary =
  trackID :: nat
  energy :: real
  numb_of_voxels :: nat
  numb_of_hits :: nat
  numb_of_tracks :: nat

text \<open>
  From \<^verbatim>\<open>#sort tracks in energy\<close> to the end of the loop over \<^verbatim>\<open>enumerate(tracks, 0)\<close>.
  The argument is the list that \<^verbatim>\<open>plf.make_track_graphs\<close> returned, in its order (the
  order of discovery).
\<close>

definition create_extract_track_blob_info :: "'h track list \<Rightarrow> track_summary list" where
  "create_extract_track_blob_info tracks0 =
     (let tracks = sorted_reverse track_energy tracks0
      in map (\<lambda>(c, t).
                \<lparr>trackID = c,
                 energy = track_energy t,
                 numb_of_voxels = length t,
                 numb_of_hits = length (concat (map vox_hits t)),
                 numb_of_tracks = length tracks\<rparr>)
             (zip [0..<length tracks] tracks))"

subsection \<open>Vocabulary for the statements about the cut\<close>

text \<open>The bins of a frame of deconvolved hits, or of an image: position and energy.\<close>

definition bins :: "real list \<Rightarrow> real list \<Rightarrow> real list \<Rightarrow> (real \<times> real \<times> real) list" where
  "bins xs ys es = zip xs (zip ys es)"

section \<open>Properties of \<^verbatim>\<open>rebin_waveform\<close>\<close>








section \<open>Properties of \<^verbatim>\<open>find_S12\<close>\<close>

text \<open>Writing a key that the dictionary does not hold appends it; so does the second loop.\<close>

lemma update_fresh: "k \<notin> fst ` set al \<Longrightarrow> AList.update k v al = al @ [(k, v)]"
  by (induction al) auto


lemma rebin_waveform_returns:
  "length t = length e \<Longrightarrow> 0 < stride \<Longrightarrow> \<exists>TE. rebin_waveform t e stride = Inr TE"
  by (simp add: rebin_waveform_def Let_def split_beta)

lemma rearrange_eq:
  assumes "rebin \<longrightarrow> 0 < rs" and "\<forall>k \<in> fst ` set S12L. k < j"
  shows "rearrange lmin lmax rebin rs S12 (S12L, j)
       = Inr (S12L @ zip [j..<j + length (filter (peak_kept lmin lmax) (map snd S12))]
                         (map (peak_stored rebin rs) (filter (peak_kept lmin lmax) (map snd S12))))"
  using assms(2)
proof (induction S12 arbitrary: S12L j)
  case Nil
  then show ?case by simp
next
  case (Cons a S12)
  obtain i pk where a: "a = (i, pk)" by (cases a)
  show ?case
  proof (cases "peak_kept lmin lmax pk")
    case False
    then have "rearrange lmin lmax rebin rs (a # S12) (S12L, j)
        = rearrange lmin lmax rebin rs S12 (S12L, j)"
      by (simp add: a peak_kept_def)
    then show ?thesis
      using Cons.IH [OF Cons.prems] False by (simp add: a)
  next
    case True
    define v where "v = peak_stored rebin rs pk"
    have fresh: "j \<notin> fst ` set S12L"
      using Cons.prems by auto
    have keys: "\<forall>k \<in> fst ` set (S12L @ [(j, v)]). k < Suc j"
      using Cons.prems by auto
    have step: "rearrange lmin lmax rebin rs (a # S12) (S12L, j)
        = rearrange lmin lmax rebin rs S12 (S12L @ [(j, v)], Suc j)"
    proof (cases rebin)
      case False
      then show ?thesis
        using True by (simp add: a peak_kept_def v_def peak_stored_def peak_arrays_def update_fresh [OF fresh])
    next
      case R: True
      then obtain TE where TE: "rebin_waveform (map fst pk) (map snd pk) rs = Inr TE"
        using rebin_waveform_returns [of "map fst pk" "map snd pk" rs] assms(1) by auto
      then show ?thesis
        using True R by (simp add: a peak_kept_def v_def peak_stored_def update_fresh [OF fresh])
    qed
    define kept where "kept = filter (peak_kept lmin lmax) (map snd S12)"
    have filt: "filter (peak_kept lmin lmax) (map snd (a # S12)) = pk # kept"
      using True by (simp add: a kept_def)
    have rest: "rearrange lmin lmax rebin rs S12 (S12L @ [(j, v)], Suc j)
        = Inr ((S12L @ [(j, v)]) @ zip [Suc j..<Suc j + length kept] (map (peak_stored rebin rs) kept))"
      using Cons.IH [OF keys] by (simp only: kept_def)
    have "zip [j..<j + length (pk # kept)] (map (peak_stored rebin rs) (pk # kept))
        = (j, v) # zip [Suc j..<Suc j + length kept] (map (peak_stored rebin rs) kept)"
      by (subst upt_conv_Cons) (simp_all add: v_def)
    then show ?thesis
      by (simp only: step rest filt append_assoc append_Cons append_Nil)
  qed
qed


lemma S12_groups_three_peaks: "S12_groups [1, 2, 3, 4, 5, 6] [0, 1, 10, 11, 12, 20] 0 1000000 4
    = [(0, [(0, 1), (25, 2)]), (1, [(250, 3), (275, 4), (300, 5)]), (2, [(500, 6)])]"
  by (simp add: S12_groups_def S12_loop.simps time_from_index_def)

text \<open>
  C4. \<^verbatim>\<open>find_S12\<close> keeps a grouped peak exactly when its sample count \<open>ls\<close>
  satisfies \<open>lmin \<le> ls < lmax\<close>: the result holds, under the keys \<open>0, 1, \<dots>\<close> and in
  the order of discovery, what the second loop stores for each such peak and nothing
  else. So a peak of \<open>lmin\<close> samples is kept (the range being non-empty), one of
  \<open>lmin - 1\<close> samples is dropped and one of \<open>lmax\<close> samples is dropped.
\<close>

theorem find_S12_keeps_by_length:
  assumes "wfzs \<noteq> []" and "length wfzs = length index" and "rebin \<longrightarrow> 0 < rebin_stride"
  shows "(let G = map snd (S12_groups wfzs index tmin tmax stride);
              kept = filter (peak_kept lmin lmax) G
          in find_S12 wfzs index tmin tmax lmin lmax stride rebin rebin_stride
               = Inr (zip [0..<length kept] (map (peak_stored rebin rebin_stride) kept))
           \<and> (\<forall>pk \<in> set G.
                 (int (length pk) = lmin \<and> lmin < lmax \<longrightarrow> pk \<in> set kept)
               \<and> (int (length pk) = lmin - 1 \<longrightarrow> pk \<notin> set kept)
               \<and> (int (length pk) = lmax \<longrightarrow> pk \<notin> set kept)))"
proof -
  have "rearrange lmin lmax rebin rebin_stride (S12_groups wfzs index tmin tmax stride) ([], 0)
      = Inr ([] @ zip [0..<0 + length (filter (peak_kept lmin lmax) (map snd (S12_groups wfzs index tmin tmax stride)))]
                   (map (peak_stored rebin rebin_stride)
                      (filter (peak_kept lmin lmax) (map snd (S12_groups wfzs index tmin tmax stride)))))"
    by (rule rearrange_eq) (use assms(3) in simp_all)
  moreover have "index \<noteq> []"
    using assms(1,2) by auto
  ultimately have "find_S12 wfzs index tmin tmax lmin lmax stride rebin rebin_stride
      = Inr (zip [0..<length (filter (peak_kept lmin lmax) (map snd (S12_groups wfzs index tmin tmax stride)))]
                   (map (peak_stored rebin rebin_stride)
                      (filter (peak_kept lmin lmax) (map snd (S12_groups wfzs index tmin tmax stride)))))"
    using assms(2) by (simp add: find_S12_def time_from_index_def)
  then show ?thesis
    by (auto simp add: Let_def peak_kept_def)
qed

theorem find_S12_keeps_by_length_witness:
  "find_S12 [1, 2, 3, 4, 5, 6] [0, 1, 10, 11, 12, 20] 0 1000000 2 3 4 False 40
     = Inr [(0, ([0, 25], [1, 2]))]"
  using find_S12_keeps_by_length [of "[1, 2, 3, 4, 5, 6]" "[0, 1, 10, 11, 12, 20]" False 40 0 1000000 4 2 3]
  by (simp add: S12_groups_three_peaks Let_def peak_kept_def peak_stored_def peak_arrays_def)

text \<open>
  The first loop only appends to the entry of key 0 and adds entries behind it: the
  sample that seeds peak 0 stays where it is.
\<close>

lemma S12_loop_keeps_first:
  "\<exists>pk' others'. fst (S12_loop T P index tmin tmax stride i ((0, s # pk) # others, j))
      = (0, s # pk') # others'"
proof (induction d \<equiv> "length P - i" arbitrary: i j pk others)
  case 0
  then show ?case
    by (subst S12_loop.simps) simp
next
  case (Suc d)
  have i: "i < length P" and d: "d = length P - Suc i"
    using Suc.hyps(2) by simp_all
  define x where "x = (T ! i, P ! i)"
  show ?case
  proof (cases "T ! i > tmax")
    case True
    then show ?thesis
      by (subst S12_loop.simps) (simp add: i)
  next
    case False
    note le_tmax = this
    show ?thesis
    proof (cases "T ! i < tmin")
      case True
      then show ?thesis
        using Suc.hyps(1) [OF d] le_tmax
        by (subst S12_loop.simps) (simp add: i)
    next
      case False
      show ?thesis
      proof (cases "index ! i - stride > index ! (i - 1)")
        case True
        have "AList.map_entry (Suc j) (\<lambda>s. s @ [x]) (AList.update (Suc j) [] ((0, s # pk) # others))
            = (0, s # pk) # AList.map_entry (Suc j) (\<lambda>s. s @ [x]) (AList.update (Suc j) [] others)"
          by simp
        then show ?thesis
          using Suc.hyps(1) [OF d] le_tmax False True
          by (subst S12_loop.simps) (simp add: i x_def)
      next
        case same: False
        have "\<exists>pk'' others''. AList.map_entry j (\<lambda>s. s @ [x]) ((0, s # pk) # others)
            = (0, s # pk'') # others''"
          by (cases "j = 0") simp_all
        then obtain pk'' others'' where
          "AList.map_entry j (\<lambda>s. s @ [x]) ((0, s # pk) # others) = (0, s # pk'') # others''"
          by blast
        then show ?thesis
          using Suc.hyps(1) [OF d] le_tmax False same
          by (subst S12_loop.simps) (simp add: i x_def)
      qed
    qed
  qed
qed

text \<open>
  C10. For every non-empty input (of equal lengths, as the assertion demands) the
  first sample is the first member of peak 0 of the grouping that the second loop
  selects from, whatever \<open>tmin\<close> and \<open>tmax\<close> are: it is stored before the loop that
  holds the two time tests, and that loop starts at the second sample. In the instance
  below the first sample lies beyond \<open>tmax\<close> and is returned.
\<close>

theorem find_S12_first_sample_unconditional:
  assumes "length ps = length is"
  shows "\<exists>pk others.
           S12_groups (p # ps) (i # is) tmin tmax stride = (0, (25 * real_of_int i, p) # pk) # others
         \<and> find_S12 (p # ps) (i # is) tmin tmax lmin lmax stride rebin rebin_stride
             = rearrange lmin lmax rebin rebin_stride ((0, (25 * real_of_int i, p) # pk) # others) ([], 0)"
proof -
  obtain pk others where
    "S12_groups (p # ps) (i # is) tmin tmax stride = (0, (25 * real_of_int i, p) # pk) # others"
    using S12_loop_keeps_first [of "time_from_index (i # is)" "p # ps" "i # is" tmin tmax stride 1
        "(25 * real_of_int i, p)" "[]" "[]" 0]
    by (auto simp add: S12_groups_def time_from_index_def)
  then show ?thesis
    using assms by (auto simp add: find_S12_def time_from_index_def)
qed

theorem find_S12_first_sample_unconditional_witness:
  "S12_groups [7, 8] [100, 101] 0 1000 4 = [(0, [(2500, 7)])]
   \<and> find_S12 [7, 8] [100, 101] 0 1000 1 10 4 False 40 = Inr [(0, ([2500], [7]))]"
  using find_S12_first_sample_unconditional [of "[8]" "[101]" 7 100 0 1000 4 1 10 False 40]
  by (simp add: S12_groups_def S12_loop.simps time_from_index_def)







text \<open>
  When the indices are sorted and the first sample is not before \<open>tmin\<close>, no sample is
  skipped: each sample that the loop stores follows the last member of the current peak
  in the array, and the test on the indices bounds the gap between them. Then the times
  of consecutive members of every returned peak differ by at most \<open>25 * stride\<close>, that
  is their indices by at most \<open>stride\<close>.
\<close>

lemma set_update_subset: "set (AList.update k v al) \<subseteq> insert (k, v) (set al)"
  by (induction al) auto

lemma set_map_entry_subset:
  "map_of al k = Some v \<Longrightarrow> set (AList.map_entry k f al) \<subseteq> insert (k, f v) (set al)"
  by (induction al) (auto split: if_splits)

lemma S12_loop_gaps:
  assumes "length T = length P" and "length index = length P"
    and "\<forall>k < length P. T ! k = 25 * real_of_int (index ! k)"
    and "\<forall>k < length P. tmin \<le> T ! k"
  shows "1 \<le> i \<Longrightarrow>
    \<forall>(k, pk) \<in> set S12. successively (\<lambda>a b. fst b - fst a \<le> 25 * real_of_int stride) pk \<Longrightarrow>
    \<exists>pk. map_of S12 j = Some pk \<and> pk \<noteq> [] \<and> fst (last pk) = T ! (i - 1) \<Longrightarrow>
    \<forall>(k, pk) \<in> set (fst (S12_loop T P index tmin tmax stride i (S12, j))).
       successively (\<lambda>a b. fst b - fst a \<le> 25 * real_of_int stride) pk"
proof (induction d \<equiv> "length P - i" arbitrary: i j S12)
  case 0
  then show ?case
    by (subst S12_loop.simps) simp
next
  case (Suc d)
  let ?ok = "successively (\<lambda>a b. fst b - fst a \<le> 25 * real_of_int stride)"
  have i: "i < length P" and d: "d = length P - Suc i"
    using Suc.hyps(2) by simp_all
  define x where "x = (T ! i, P ! i)"
  have no_skip: "\<not> T ! i < tmin"
    using assms(4) i by (simp add: not_less)
  obtain pk where pk: "map_of S12 j = Some pk" "pk \<noteq> []" "fst (last pk) = T ! (i - 1)"
    using Suc.prems(3) by blast
  show ?case
  proof (cases "T ! i > tmax")
    case True
    then show ?thesis
      using Suc.prems(2) by (subst S12_loop.simps) (simp add: i)
  next
    case False
    show ?thesis
    proof (cases "index ! i - stride > index ! (i - 1)")
      case True
      define S where "S = AList.map_entry (Suc j) (\<lambda>s. s @ [x]) (AList.update (Suc j) [] S12)"
      have "map_of (AList.update (Suc j) [] S12) (Suc j) = Some []"
        by (simp add: update_conv')
      then have "set S \<subseteq> insert (Suc j, [] @ [x]) (set (AList.update (Suc j) [] S12))"
        unfolding S_def by (rule set_map_entry_subset)
      then have sub: "set S \<subseteq> insert (Suc j, [x]) (insert (Suc j, []) (set S12))"
        using set_update_subset [of "Suc j" "[]" S12] by auto
      have ok: "\<forall>(k, pk) \<in> set S. ?ok pk"
        using sub Suc.prems(2) by fastforce
      have cur: "\<exists>pk. map_of S (Suc j) = Some pk \<and> pk \<noteq> [] \<and> fst (last pk) = T ! (Suc i - 1)"
        by (simp add: S_def map_of_map_entry update_conv' x_def)
      have "S12_loop T P index tmin tmax stride i (S12, j)
          = S12_loop T P index tmin tmax stride (Suc i) (S, Suc j)"
        using False no_skip True by (subst S12_loop.simps) (simp add: i S_def x_def)
      then show ?thesis
        using Suc.hyps(1) [OF d _ ok cur] by simp
    next
      case same: False
      define S where "S = AList.map_entry j (\<lambda>s. s @ [x]) S12"
      have sub: "set S \<subseteq> insert (j, pk @ [x]) (set S12)"
        unfolding S_def using pk(1) by (rule set_map_entry_subset)
      have "T ! i - T ! (i - 1) \<le> 25 * real_of_int stride"
      proof -
        have "index ! i - index ! (i - 1) \<le> stride"
          using same by simp
        then have "real_of_int (index ! i) - real_of_int (index ! (i - 1)) \<le> real_of_int stride"
          by (metis of_int_diff of_int_le_iff)
        then show ?thesis
          using assms(3) i by simp
      qed
      then have "?ok (pk @ [x])"
        using Suc.prems(2) pk map_of_SomeD [OF pk(1)]
        by (auto simp add: successively_append_iff x_def)
      then have ok: "\<forall>(k, pk) \<in> set S. ?ok pk"
        using sub Suc.prems(2) by fastforce
      have cur: "\<exists>pk. map_of S j = Some pk \<and> pk \<noteq> [] \<and> fst (last pk) = T ! (Suc i - 1)"
        using pk(1) by (simp add: S_def map_of_map_entry x_def)
      have "S12_loop T P index tmin tmax stride i (S12, j)
          = S12_loop T P index tmin tmax stride (Suc i) (S, j)"
        using False no_skip same by (subst S12_loop.simps) (simp add: i S_def x_def)
      then show ?thesis
        using Suc.hyps(1) [OF d _ ok cur] by simp
    qed
  qed
qed

lemma find_S12_gaps_within_stride:
  assumes "wfzs \<noteq> []" and "length wfzs = length index" and "sorted index"
    and "tmin \<le> 25 * real_of_int (index ! 0)"
    and "find_S12 wfzs index tmin tmax lmin lmax stride False rebin_stride = Inr S12L"
    and "(k, t, e) \<in> set S12L"
  shows "successively (\<lambda>a b. b - a \<le> 25 * real_of_int stride) t"
proof -
  define T where "T = time_from_index index"
  define G where "G = S12_groups wfzs index tmin tmax stride"
  have index: "index \<noteq> []"
    using assms(1,2) by auto
  have T: "length T = length wfzs" "\<forall>k < length wfzs. T ! k = 25 * real_of_int (index ! k)"
    using assms(2) by (simp_all add: T_def time_from_index_def)
  have "index ! 0 \<le> index ! k" if "k < length index" for k
    using assms(3) that by (simp add: sorted_iff_nth_mono)
  then have window: "\<forall>k < length wfzs. tmin \<le> T ! k"
    using assms(2,4) T(2) by (auto intro: order_trans)
  have "\<forall>(k, pk) \<in> set (fst (S12_loop T wfzs index tmin tmax stride 1 ([(0, [(T ! 0, wfzs ! 0)])], 0))).
          successively (\<lambda>a b. fst b - fst a \<le> 25 * real_of_int stride) pk"
    using T assms(2) window by (intro S12_loop_gaps) simp_all
  then have G: "\<forall>(k, pk) \<in> set G. successively (\<lambda>a b. fst b - fst a \<le> 25 * real_of_int stride) pk"
    by (simp add: G_def S12_groups_def T_def Let_def)
  have "rearrange lmin lmax False rebin_stride G ([], 0)
      = Inr ([] @ zip [0..<0 + length (filter (peak_kept lmin lmax) (map snd G))]
               (map (peak_stored False rebin_stride) (filter (peak_kept lmin lmax) (map snd G))))"
    by (rule rearrange_eq) simp_all
  moreover have "peak_stored False rebin_stride = peak_arrays"
    by (rule ext) (simp add: peak_stored_def)
  ultimately have "S12L = zip [0..<length (filter (peak_kept lmin lmax) (map snd G))]
               (map peak_arrays (filter (peak_kept lmin lmax) (map snd G)))"
    using assms(2,5) index by (auto simp add: find_S12_def time_from_index_def G_def)
  then have "(t, e) \<in> set (map peak_arrays (filter (peak_kept lmin lmax) (map snd G)))"
    using assms(6) by (auto dest: set_zip_rightD)
  then obtain pk where "pk \<in> snd ` set G" and "t = map fst pk"
    by (auto simp add: peak_arrays_def)
  then show ?thesis
    using G by (auto simp add: successively_map)
qed

text \<open>
  C7. The members of a returned peak need not be within \<open>stride\<close> of their predecessor.
  With indices 0, 50, 51, \<open>stride = 4\<close> and \<open>tmin = 1260\<close>: sample 0 seeds peak 0 without
  a time test, sample 1 (time 1250) is skipped, sample 2 is compared with the skipped
  sample (\<open>51 - 4 > 50\<close> is false) and joins peak 0. The returned peak holds the times 0
  and 1275, that is the indices 0 and 51, a gap of 51. By the lemma above this needs a
  first sample before \<open>tmin\<close>.
\<close>

theorem find_S12_gap_over_skipped_samples:
  "find_S12 [1, 1, 1] [0, 50, 51] 1260 1000000 1 10 4 False 40 = Inr [(0, ([0, 1275], [1, 1]))]"
  by (simp add: find_S12_def S12_groups_def S12_loop.simps time_from_index_def)

text \<open>
  C3. On empty arrays (no sample, no index) \<^verbatim>\<open>find_S12\<close> does not return: the read of
  \<^verbatim>\<open>T[0]\<close> that seeds peak 0 raises an index error.
\<close>

theorem find_S12_empty_raises:
  "find_S12 [] [] tmin tmax lmin lmax stride rebin rebin_stride = Inl IndexError"
  by (simp add: find_S12_def time_from_index_def)

section \<open>Properties of the cut and of the redistribution of the energy\<close>




text \<open>
  The first of the unique values of a non-empty column is its first entry; a boolean
  selection computed from the image keeps, in each array of the same length, the entries
  at the positions of the selected bins.
\<close>

lemma remdups_snoc: "remdups (ys @ [x]) = remdups (filter (\<lambda>y. y \<noteq> x) ys) @ [x]"
  by (induction ys) auto

lemma unique_Cons: "unique (x # xs) = x # rev (remdups (filter (\<lambda>y. y \<noteq> x) (rev xs)))"
  by (simp add: unique_def remdups_snoc)

lemma first_unique: "xs \<noteq> [] \<Longrightarrow> first (unique xs) = Inr (hd xs)"
  by (cases xs) (simp_all add: first_def unique_Cons)

lemma masked_map:
  "length xs = length vs \<Longrightarrow>
   masked xs (map P vs) = Inr (map fst (filter (\<lambda>(x, v). P v) (zip xs vs)))"
  by (induction xs vs rule: list_induct2) (simp_all add: masked_def)

lemma masked_self: "masked vs (map P vs) = Inr (filter P vs)"
  by (induction vs) (simp_all add: masked_def)

lemma bins_masked_aux:
  "length px = length py \<Longrightarrow> length py = length es \<Longrightarrow>
   bins (map fst (filter (\<lambda>(x, v). P v) (zip px es)))
        (map fst (filter (\<lambda>(x, v). P v) (zip py es))) (filter P es)
   = filter (\<lambda>(x, y, v). P v) (bins px py es)"
  by (induction px py es rule: list_induct3) (simp_all add: bins_def)

lemma bins_masked:
  "length px = length es \<Longrightarrow> length py = length es \<Longrightarrow>
   bins (map fst (filter (\<lambda>(x, v). P v) (zip px es)))
        (map fst (filter (\<lambda>(x, v). P v) (zip py es))) (filter P es)
   = filter (\<lambda>(x, y, v). P v) (bins px py es)"
  by (rule bins_masked_aux) simp_all

lemma create_deconvolution_df_2d:
  assumes "c_event hits \<noteq> []" and "c_npeak hits \<noteq> []" and "c_Z hits \<noteq> []"
    and "length px = length deconv_e" and "length py = length deconv_e"
    and "sel_deconv deconv_e cut_type e_cut = Inr (map P deconv_e)"
  shows "\<exists>df. create_deconvolution_df hits deconv_e [px, py] cut_type e_cut 2 = Inr df
           \<and> bins (df_X df) (df_Y df) (df_E df) = filter (\<lambda>(x, y, v). P v) (bins px py deconv_e)
           \<and> df_E df = filter P deconv_e"
  using assms
  by (simp add: create_deconvolution_df_def masked_self masked_map first_unique item_def bins_masked)


lemma np_quotient_finite:
  "m \<noteq> 0 \<Longrightarrow> np_greater (np_divide v m) c \<longleftrightarrow> v / m > c"
  by (simp add: np_greater_def np_divide_def)

text \<open>
  C2. For a slice with at least one sensor row and position arrays as long as the image,
  in two dimensions: in absolute mode \<^verbatim>\<open>create_deconvolution_df\<close> returns exactly the bins
  whose value is greater than \<open>e_cut\<close>; in relative mode (of a non-empty image) exactly
  the bins whose value divided by the maximum of the image is greater than \<open>e_cut\<close>,
  the quotient being that of numpy, which for a non-zero maximum is the quotient of the
  reals. For the image \<open>[0.1, 0.5, 1.0]\<close>, absolute mode with \<open>e_cut = 0.5\<close> returns
  the bin of value 1.0 only, relative mode with \<open>e_cut = 0.4\<close> the bins of values 0.5
  and 1.0.
\<close>

theorem create_deconvolution_df_cut:
  assumes "c_event hits \<noteq> []" and "c_npeak hits \<noteq> []" and "c_Z hits \<noteq> []"
    and "length px = length deconv_e" and "length py = length deconv_e"
  shows "(\<exists>df. create_deconvolution_df hits deconv_e [px, py] abs_cut e_cut 2 = Inr df
            \<and> bins (df_X df) (df_Y df) (df_E df)
                = filter (\<lambda>(x, y, v). v > e_cut) (bins px py deconv_e))
       \<and> (deconv_e \<noteq> [] \<longrightarrow>
            (\<exists>df. create_deconvolution_df hits deconv_e [px, py] rel_cut e_cut 2 = Inr df
               \<and> bins (df_X df) (df_Y df) (df_E df)
                   = filter (\<lambda>(x, y, v). np_greater (np_divide v (Max (set deconv_e))) e_cut)
                       (bins px py deconv_e)))
       \<and> (deconv_e \<noteq> [] \<and> Max (set deconv_e) \<noteq> 0 \<longrightarrow>
            (\<exists>df. create_deconvolution_df hits deconv_e [px, py] rel_cut e_cut 2 = Inr df
               \<and> bins (df_X df) (df_Y df) (df_E df)
                   = filter (\<lambda>(x, y, v). v / Max (set deconv_e) > e_cut) (bins px py deconv_e)))
       \<and> (\<exists>df. create_deconvolution_df hits [1 / 10, 1 / 2, 1] [[x1, x2, x3], [y1, y2, y3]] abs_cut (1 / 2) 2
                  = Inr df
            \<and> bins (df_X df) (df_Y df) (df_E df) = [(x3, y3, 1)])
       \<and> (\<exists>df. create_deconvolution_df hits [1 / 10, 1 / 2, 1] [[x1, x2, x3], [y1, y2, y3]] rel_cut (4 / 10) 2
                  = Inr df
            \<and> bins (df_X df) (df_Y df) (df_E df) = [(x2, y2, 1 / 2), (x3, y3, 1)])"
proof -
  note hits = assms(1-3)
  have A: "\<exists>df. create_deconvolution_df hits deconv_e [px, py] abs_cut e_cut 2 = Inr df
            \<and> bins (df_X df) (df_Y df) (df_E df)
                = filter (\<lambda>(x, y, v). v > e_cut) (bins px py deconv_e)"
    using create_deconvolution_df_2d [OF hits assms(4,5), of abs_cut e_cut "\<lambda>v. v > e_cut"]
    by (auto simp add: sel_deconv_def)
  have B: "\<exists>df. create_deconvolution_df hits deconv_e [px, py] rel_cut e_cut 2 = Inr df
            \<and> bins (df_X df) (df_Y df) (df_E df)
                = filter (\<lambda>(x, y, v). np_greater (np_divide v (Max (set deconv_e))) e_cut)
                    (bins px py deconv_e)"
    if "deconv_e \<noteq> []"
    using create_deconvolution_df_2d [OF hits assms(4,5), of rel_cut e_cut
        "\<lambda>v. np_greater (np_divide v (Max (set deconv_e))) e_cut"] that
    by (auto simp add: sel_deconv_def)
  have C: "\<exists>df. create_deconvolution_df hits deconv_e [px, py] rel_cut e_cut 2 = Inr df
            \<and> bins (df_X df) (df_Y df) (df_E df)
                = filter (\<lambda>(x, y, v). v / Max (set deconv_e) > e_cut) (bins px py deconv_e)"
    if "deconv_e \<noteq> []" and "Max (set deconv_e) \<noteq> 0"
    using B [OF that(1)] by (simp add: np_quotient_finite [OF that(2)])
  have D: "\<exists>df. create_deconvolution_df hits [1 / 10, 1 / 2, 1] [[x1, x2, x3], [y1, y2, y3]] abs_cut (1 / 2) 2
                  = Inr df
            \<and> bins (df_X df) (df_Y df) (df_E df) = [(x3, y3, 1)]"
    using create_deconvolution_df_2d [OF hits, of "[x1, x2, x3]" "[1 / 10, 1 / 2, 1]" "[y1, y2, y3]"
        abs_cut "1 / 2" "\<lambda>v. v > 1 / 2"]
    by (auto simp add: sel_deconv_def bins_def)
  have M: "Max (set [1 / 10, 1 / 2, 1 :: real]) = 1"
    by simp
  have E: "\<exists>df. create_deconvolution_df hits [1 / 10, 1 / 2, 1] [[x1, x2, x3], [y1, y2, y3]] rel_cut (4 / 10) 2
                  = Inr df
            \<and> bins (df_X df) (df_Y df) (df_E df) = [(x2, y2, 1 / 2), (x3, y3, 1)]"
    using create_deconvolution_df_2d [OF hits, of "[x1, x2, x3]" "[1 / 10, 1 / 2, 1]" "[y1, y2, y3]"
        rel_cut "4 / 10" "\<lambda>v. v > 4 / 10"]
    by (auto simp add: sel_deconv_def bins_def M np_greater_def np_divide_def)
  show ?thesis
    using A B C D E by blast
qed

theorem create_deconvolution_df_cut_witness:
  "(\<exists>df. create_deconvolution_df
            \<lparr>c_event = [7, 7], c_npeak = [0, 0], c_Xpeak = [1, 1], c_Ypeak = [5, 5],
             c_X = [0, 10], c_Y = [0, 0], c_Z = [30, 30], c_Q = [4, 5],
             c_E = [1, 1], c_Ec = [2, 6], c_NormQ = [4 / 9, 5 / 9]\<rparr>
            [2, 0, 5] [[0, 1, 2], [3, 3, 3]] abs_cut 1 2 = Inr df
       \<and> bins (df_X df) (df_Y df) (df_E df) = [(0, 3, 2), (2, 3, 5)])
   \<and> (\<exists>df. create_deconvolution_df
            \<lparr>c_event = [7, 7], c_npeak = [0, 0], c_Xpeak = [1, 1], c_Ypeak = [5, 5],
             c_X = [0, 10], c_Y = [0, 0], c_Z = [30, 30], c_Q = [4, 5],
             c_E = [1, 1], c_Ec = [2, 6], c_NormQ = [4 / 9, 5 / 9]\<rparr>
            [2, 0, 5] [[0, 1, 2], [3, 3, 3]] rel_cut (1 / 2) 2 = Inr df
       \<and> bins (df_X df) (df_Y df) (df_E df) = [(2, 3, 5)])"
  using create_deconvolution_df_cut
    [of "\<lparr>c_event = [7, 7], c_npeak = [0, 0], c_Xpeak = [1, 1], c_Ypeak = [5, 5],
             c_X = [0, 10], c_Y = [0, 0], c_Z = [30, 30], c_Q = [4, 5],
             c_E = [1, 1], c_Ec = [2, 6], c_NormQ = [4 / 9, 5 / 9]\<rparr>"
        "[0, 1, 2]" "[2, 0, 5]" "[3, 3, 3]" 1]
    create_deconvolution_df_cut
    [of "\<lparr>c_event = [7, 7], c_npeak = [0, 0], c_Xpeak = [1, 1], c_Ypeak = [5, 5],
             c_X = [0, 10], c_Y = [0, 0], c_Z = [30, 30], c_Q = [4, 5],
             c_E = [1, 1], c_Ec = [2, 6], c_NormQ = [4 / 9, 5 / 9]\<rparr>"
        "[0, 1, 2]" "[2, 0, 5]" "[3, 3, 3]" "1 / 2"]
  by (simp add: bins_def)

section \<open>Properties of \<^verbatim>\<open>deconvolve_hits\<close>\<close>

text \<open>
  C8. \<^verbatim>\<open>deconvolve_hits\<close> hands to the deconvolution the PSF rows selected with the
  longitudinal coordinate \<open>z\<close> of the slice in joint mode, and with 0 in separate mode
  (where the image then goes through the Gaussian pass for \<open>z\<close>); the lookup compares
  the column \<open>z\<close> of the table with the nearest grid value to that coordinate.
\<close>

theorem deconvolve_hits_psf_lookup:
  "deconvolve_hits find_nearest deconvolution gaussian_pass psfs joint n_dim cut_type e_cut df z
     = (let psf = psf_lookup find_nearest psfs z (unique (c_Xpeak df)) (unique (c_Ypeak df));
            (image, pos) = deconvolution (take n_dim [c_X df, c_Y df, c_Z df]) (c_NormQ df) psf
        in create_deconvolution_df df (concat image) pos cut_type e_cut n_dim)
   \<and> deconvolve_hits find_nearest deconvolution gaussian_pass psfs separate n_dim cut_type e_cut df z
     = (let psf = psf_lookup find_nearest psfs 0 (unique (c_Xpeak df)) (unique (c_Ypeak df));
            (image, pos) = deconvolution (take n_dim [c_X df, c_Y df, c_Z df]) (c_NormQ df) psf
        in create_deconvolution_df df (concat (gaussian_pass z psf image)) pos cut_type e_cut n_dim)
   \<and> psf_lookup find_nearest psfs zz xx yy
     = filter (\<lambda>r. p_z r = find_nearest (map p_z psfs) (Scalar zz)
                \<and> p_x r = find_nearest (map p_x psfs) (Array xx)
                \<and> p_y r = find_nearest (map p_y psfs) (Array yy)) psfs"
  by (simp add: deconvolve_hits_def psf_lookup_def Let_def split_beta)

section \<open>Properties of the track summaries\<close>








text \<open>
  Three tracks of energies 1, 5 and 1 (with 1, 3 and 4 hits): the track of energy 5 comes
  first, the two others follow in their order of discovery.
\<close>

lemma track_summaries_tie_example:
  "map (\<lambda>r. (trackID r, energy r, numb_of_hits r)) (create_extract_track_blob_info
      [[\<lparr>Ehits = 1, vox_hits = [0 :: nat]\<rparr>],
       [\<lparr>Ehits = 3, vox_hits = [1, 2]\<rparr>, \<lparr>Ehits = 2, vox_hits = [3]\<rparr>],
       [\<lparr>Ehits = 1, vox_hits = [4, 5, 6, 7]\<rparr>]])
   = [(0, 5, 3), (1, 1, 1), (2, 1, 4)]"
  by (simp add: create_extract_track_blob_info_def sorted_reverse_def track_energy_def Let_def upt_conv_Cons)


end
